theory Spec2Isabelle
  imports Main
begin

section \<open>JavaScript values\<close>

text \<open>
  The classes \<open>Result\<close> and \<open>Option\<close> are generic in TypeScript, but the type
  parameters are erased: at run time a slot holds any JavaScript value, and the methods
  compare slots with \<open>===\<close> / \<open>!==\<close>. The value universe of the model is therefore
  untyped. It has the primitives the library distinguishes (\<open>undefined\<close>, \<open>null\<close>),
  booleans, integral numbers (printed in decimal, as the safe integers are), strings,
  symbols (compared by identity, here a number) and
  \<open>Error\<close> instances (a name and a message; an instance stands for itself, so equality
  of two instances is equality of their fields).
\<close>

datatype js_value =
    Undefined
  | Null
  | Boolean bool
  | Number int
  | String string
  | Symbol nat
  | ErrorObject string string

text \<open>\<open>const EMPTY = Symbol("EMPTY")\<close>: the first symbol the module creates.\<close>

definition EMPTY :: js_value where
  "EMPTY = Symbol 0"

text \<open>\<open>new Error(message)\<close>, and the \<open>TypeError\<close> the runtime raises when a symbol is
  converted to a string.\<close>

definition new_Error :: "string \<Rightarrow> js_value" where
  "new_Error message = ErrorObject ''Error'' message"

definition symbol_TypeError :: js_value where
  "symbol_TypeError = ErrorObject ''TypeError'' ''Cannot convert a Symbol value to a string''"

text \<open>Decimal digits of a natural number, most significant first.\<close>

function decimal :: "nat \<Rightarrow> string" where
  "decimal n =
     (if n < 10 then [''0123456789'' ! n]
      else decimal (n div 10) @ [''0123456789'' ! (n mod 10)])"
  by pat_completeness auto
termination
  by (relation "measure id") auto

declare decimal.simps [simp del]

text \<open>
  The conversion a template literal \<open>`${x}`\<close> applies to \<open>x\<close> (ECMAScript
  \<open>ToString\<close>). It raises a \<open>TypeError\<close> on a symbol; an \<open>Error\<close> instance is
  rendered by \<open>Error.prototype.toString\<close>. A raised value is \<open>Inl\<close>.
  \<open>Number n\<close> stands for an integral number of magnitude below \<open>10^21\<close>, where
  the conversion prints plain decimal digits; larger numbers, which the runtime prints
  with an exponent, and objects other than \<open>Error\<close> instances, whose conversion runs
  their own \<open>toString\<close>, are outside the model.
\<close>

fun js_to_string :: "js_value \<Rightarrow> js_value + string" where
  "js_to_string Undefined = Inr ''undefined''"
| "js_to_string Null = Inr ''null''"
| "js_to_string (Boolean b) = Inr (if b then ''true'' else ''false'')"
| "js_to_string (Number n) =
     Inr (if n < 0 then ''-'' @ decimal (nat (- n)) else decimal (nat n))"
| "js_to_string (String s) = Inr s"
| "js_to_string (Symbol i) = Inl symbol_TypeError"
| "js_to_string (ErrorObject name message) =
     Inr (if name = [] then message
          else if message = [] then name
          else name @ '': '' @ message)"

section \<open>Result with the symbol sentinel (result.ts)\<close>

record Result =
  p_value :: js_value
  p_error :: js_value

text \<open>The constructor stores the two fields of its argument object.\<close>

definition new_Result :: "js_value \<Rightarrow> js_value \<Rightarrow> Result" where
  "new_Result v e = \<lparr>p_value = v, p_error = e\<rparr>"

text \<open>The getters \<open>ok\<close> and \<open>err\<close>: the cast \<open>as T\<close> does nothing at run time.\<close>

definition ok :: "Result \<Rightarrow> js_value" where
  "ok this = p_value this"

definition err :: "Result \<Rightarrow> js_value" where
  "err this = p_error this"

definition isOk :: "Result \<Rightarrow> bool" where
  "isOk this = (p_value this \<noteq> EMPTY)"

definition isErr :: "Result \<Rightarrow> bool" where
  "isErr this = (p_error this \<noteq> EMPTY)"

text \<open>\<open>expect\<close>: the message is built by the template literal
  \<open>`${msg} - ${this.#error}`\<close>, whose conversion of the error may itself raise.\<close>

definition expect :: "Result \<Rightarrow> string \<Rightarrow> js_value + js_value" where
  "expect this msg =
     (if p_error this \<noteq> EMPTY then
        (case js_to_string (p_error this) of
           Inl thrown \<Rightarrow> Inl thrown
         | Inr s \<Rightarrow> Inl (new_Error (msg @ '' - '' @ s)))
      else Inr (p_value this))"

text \<open>\<open>unwrapOr\<close>, from the documented revision of the class.\<close>

definition unwrapOr :: "Result \<Rightarrow> js_value \<Rightarrow> js_value" where
  "unwrapOr this other = (if p_error this \<noteq> EMPTY then other else p_value this)"

text \<open>
  A callback is modelled by what calling it does: it returns a value (\<open>Inr\<close>) or raises
  one (\<open>Inl\<close>). \<open>try_catch\<close> is the \<open>try { ... } catch (e) { ... }\<close> statement: the
  handler runs on the value the body raised.
\<close>

definition try_catch :: "js_value + 'a \<Rightarrow> (js_value \<Rightarrow> js_value + 'a) \<Rightarrow> js_value + 'a" where
  "try_catch body handler = (case body of Inl e \<Rightarrow> handler e | Inr x \<Rightarrow> Inr x)"

definition wrap :: "(unit \<Rightarrow> js_value + js_value) \<Rightarrow> js_value + Result" where
  "wrap callback =
     try_catch
       (case callback () of
          Inl thrown \<Rightarrow> Inl thrown
        | Inr v \<Rightarrow> Inr (new_Result v EMPTY))
       (\<lambda>e. Inr (new_Result EMPTY e))"

definition Ok :: "js_value \<Rightarrow> Result" where
  "Ok v = new_Result v EMPTY"

definition Err :: "js_value \<Rightarrow> Result" where
  "Err e = new_Result EMPTY e"

text \<open>Two callbacks: \<open>() => v\<close> and \<open>() => { throw e }\<close>.\<close>

definition returning :: "'a \<Rightarrow> unit \<Rightarrow> js_value + 'a" where
  "returning v = (\<lambda>_. Inr v)"

definition throwing :: "js_value \<Rightarrow> unit \<Rightarrow> js_value + 'a" where
  "throwing e = (\<lambda>_. Inl e)"

subsection \<open>Promises and \<open>wrapAsync\<close>\<close>

text \<open>
  A promise is modelled by how it ends: it is fulfilled with a value, rejected with a
  reason, or stays pending for ever. \<open>await\<close> resumes with the value, raises the reason,
  or never resumes (\<open>None\<close>). An \<open>async\<close> function returns a promise that is fulfilled
  with what its body returns, rejected with what its body raises, and pending if the
  body never resumes.
\<close>

datatype 'a Promise = Pending | Fulfilled 'a | Rejected js_value

definition await :: "'a Promise \<Rightarrow> (js_value + 'a) option" where
  "await p =
     (case p of
        Pending \<Rightarrow> None
      | Fulfilled v \<Rightarrow> Some (Inr v)
      | Rejected reason \<Rightarrow> Some (Inl reason))"

definition async_function :: "(js_value + 'a) option \<Rightarrow> 'a Promise" where
  "async_function body =
     (case body of
        None \<Rightarrow> Pending
      | Some (Inl thrown) \<Rightarrow> Rejected thrown
      | Some (Inr x) \<Rightarrow> Fulfilled x)"

text \<open>\<open>await callback()\<close>: the call itself may raise before any promise exists.\<close>

definition await_call :: "(unit \<Rightarrow> js_value + 'a Promise) \<Rightarrow> (js_value + 'a) option" where
  "await_call callback =
     (case callback () of
        Inl thrown \<Rightarrow> Some (Inl thrown)
      | Inr p \<Rightarrow> await p)"

definition wrapAsync :: "(unit \<Rightarrow> js_value + js_value Promise) \<Rightarrow> Result Promise" where
  "wrapAsync callback =
     async_function
       (case await_call callback of
          None \<Rightarrow> None
        | Some outcome \<Rightarrow>
            Some (try_catch
                    (case outcome of
                       Inl thrown \<Rightarrow> Inl thrown
                     | Inr v \<Rightarrow> Inr (new_Result v EMPTY))
                    (\<lambda>e. Inr (new_Result EMPTY e))))"

subsection \<open>Calling a method of a Result\<close>

text \<open>
  The instance methods and getters of the class, as one call interface that returns a
  JavaScript value or raises one. Only \<open>expect\<close> contains a \<open>throw\<close>.
\<close>

datatype Result_member =
    Get_ok
  | Get_err
  | Call_isOk
  | Call_isErr
  | Call_unwrapOr js_value
  | Call_expect string

fun invoke :: "Result_member \<Rightarrow> Result \<Rightarrow> js_value + js_value" where
  "invoke Get_ok this = Inr (ok this)"
| "invoke Get_err this = Inr (err this)"
| "invoke Call_isOk this = Inr (Boolean (isOk this))"
| "invoke Call_isErr this = Inr (Boolean (isErr this))"
| "invoke (Call_unwrapOr other) this = Inr (unwrapOr this other)"
| "invoke (Call_expect msg) this = expect this msg"

text \<open>A Result as \<open>Ok\<close>, \<open>Err\<close>, \<open>wrap\<close> and \<open>wrapAsync\<close> build it: one slot holds
  the sentinel.\<close>

definition built :: "Result \<Rightarrow> bool" where
  "built r = (p_value r = EMPTY \<or> p_error r = EMPTY)"

section \<open>Result with \<open>undefined\<close> as the sentinel (the earlier revision)\<close>

definition ok_undef :: "Result \<Rightarrow> js_value" where
  "ok_undef this = p_value this"

definition err_undef :: "Result \<Rightarrow> js_value" where
  "err_undef this = p_error this"

definition isOk_undef :: "Result \<Rightarrow> bool" where
  "isOk_undef this = (p_error this = Undefined)"

definition isErr_undef :: "Result \<Rightarrow> bool" where
  "isErr_undef this = (p_error this \<noteq> Undefined)"

definition expect_undef :: "Result \<Rightarrow> string \<Rightarrow> js_value + js_value" where
  "expect_undef this msg =
     (if p_error this \<noteq> Undefined then
        (case js_to_string (p_error this) of
           Inl thrown \<Rightarrow> Inl thrown
         | Inr s \<Rightarrow> Inl (new_Error (msg @ '' - '' @ s)))
      else Inr (p_value this))"

definition wrap_undef :: "(unit \<Rightarrow> js_value + js_value) \<Rightarrow> js_value + Result" where
  "wrap_undef callback =
     try_catch
       (case callback () of
          Inl thrown \<Rightarrow> Inl thrown
        | Inr v \<Rightarrow> Inr (new_Result v Undefined))
       (\<lambda>e. Inr (new_Result Undefined e))"

definition Ok_undef :: "js_value \<Rightarrow> Result" where
  "Ok_undef v = new_Result v Undefined"

definition Err_undef :: "js_value \<Rightarrow> Result" where
  "Err_undef e = new_Result Undefined e"

section \<open>Option (option.ts)\<close>

record Option =
  o_value :: js_value

definition new_Option :: "js_value \<Rightarrow> Option" where
  "new_Option v = \<lparr>o_value = v\<rparr>"

text \<open>The getter \<open>some\<close> of option.ts checks both sentinels and raises.\<close>

definition some :: "Option \<Rightarrow> js_value + js_value" where
  "some this =
     (if o_value this = Undefined \<or> o_value this = Null
      then Inl (new_Error ''Option is None'')
      else Inr (o_value this))"

definition isSome :: "Option \<Rightarrow> bool" where
  "isSome this = (o_value this \<noteq> Undefined)"

definition isNone :: "Option \<Rightarrow> bool" where
  "isNone this = (o_value this = Undefined)"

definition Option_expect :: "Option \<Rightarrow> string \<Rightarrow> js_value + js_value" where
  "Option_expect this msg =
     (if o_value this = Undefined \<or> o_value this = Null
      then Inl (new_Error (msg @ '' - Option is None''))
      else Inr (o_value this))"

definition Option_wrap :: "js_value \<Rightarrow> Option" where
  "Option_wrap v = new_Option v"

text \<open>The getter \<open>some\<close> of the earlier revision of the class: no check.\<close>

definition some_unchecked :: "Option \<Rightarrow> js_value" where
  "some_unchecked this = o_value this"

section \<open>Basic facts\<close>

lemma decimal_42: "decimal 42 = ''42''"
  by (simp add: decimal.simps [of 42] decimal.simps [of 4])

lemma EMPTY_distinct:
  "EMPTY \<noteq> Undefined" "EMPTY \<noteq> Null" "Undefined \<noteq> EMPTY" "Null \<noteq> EMPTY"
  by (simp_all add: EMPTY_def)

lemma Ok_fields: "p_value (Ok v) = v" "p_error (Ok v) = EMPTY"
  by (simp_all add: Ok_def new_Result_def)

lemma Err_fields: "p_value (Err e) = EMPTY" "p_error (Err e) = e"
  by (simp_all add: Err_def new_Result_def)

lemma Ok_undef_fields: "p_value (Ok_undef v) = v" "p_error (Ok_undef v) = Undefined"
  by (simp_all add: Ok_undef_def new_Result_def)

lemma Err_undef_fields: "p_value (Err_undef e) = Undefined" "p_error (Err_undef e) = e"
  by (simp_all add: Err_undef_def new_Result_def)

lemma wrap_returned: "callback () = Inr v \<Longrightarrow> wrap callback = Inr (Ok v)"
  by (simp add: wrap_def try_catch_def Ok_def)

lemma wrap_thrown: "callback () = Inl f \<Longrightarrow> wrap callback = Inr (Err f)"
  by (simp add: wrap_def try_catch_def Err_def)

lemma wrap_cases:
  "wrap callback = (case callback () of Inl f \<Rightarrow> Inr (Err f) | Inr v \<Rightarrow> Inr (Ok v))"
  by (cases "callback ()") (simp_all add: wrap_returned wrap_thrown)

lemma wrap_undef_cases:
  "wrap_undef callback =
     (case callback () of Inl f \<Rightarrow> Inr (Err_undef f) | Inr v \<Rightarrow> Inr (Ok_undef v))"
  by (cases "callback ()")
     (simp_all add: wrap_undef_def try_catch_def Ok_undef_def Err_undef_def)

lemma wrapAsync_cases:
  "wrapAsync callback =
     (case await_call callback of
        None \<Rightarrow> Pending
      | Some (Inl f) \<Rightarrow> Fulfilled (Err f)
      | Some (Inr v) \<Rightarrow> Fulfilled (Ok v))"
  by (simp add: wrapAsync_def async_function_def try_catch_def Ok_def Err_def
           split: option.splits sum.splits)

lemma built_Ok: "built (Ok v)"
  by (simp add: built_def Ok_fields)

lemma built_Err: "built (Err e)"
  by (simp add: built_def Err_fields)

lemma built_wrap: "wrap callback = Inr r \<Longrightarrow> built r"
  by (auto simp: wrap_cases built_Ok built_Err split: sum.splits)

lemma built_wrapAsync: "wrapAsync callback = Fulfilled r \<Longrightarrow> built r"
  by (auto simp: wrapAsync_cases built_Ok built_Err split: option.splits sum.splits)

lemma built_exclusive: "built r \<Longrightarrow> isOk r \<Longrightarrow> \<not> isErr r"
  by (auto simp: built_def isOk_def isErr_def)

lemma js_to_string_not_symbol:
  "(\<forall>i. x \<noteq> Symbol i) \<Longrightarrow> \<exists>s. js_to_string x = Inr s"
  by (cases x) simp_all

lemma invoke_raises_only_expect:
  "invoke m r = Inl x \<Longrightarrow> \<exists>msg. m = Call_expect msg"
  by (cases m) simp_all

lemma expect_no_error: "\<not> isErr r \<Longrightarrow> expect r msg = Inr (ok r)"
  by (simp add: expect_def isErr_def ok_def)

lemma expect_error_raises: "isErr r \<Longrightarrow> \<exists>x. expect r msg = Inl x"
  by (simp add: expect_def isErr_def split: sum.splits)

lemma expect_error_message:
  "isErr r \<Longrightarrow> js_to_string (err r) = Inr s \<Longrightarrow>
   expect r msg = Inl (new_Error (msg @ '' - '' @ s))"
  by (simp add: expect_def isErr_def err_def)

lemma wrapAsync_not_rejected: "wrapAsync callback \<noteq> Rejected x"
  by (simp add: wrapAsync_cases split: option.splits sum.splits)

lemma Option_wrap_value: "o_value (Option_wrap v) = v"
  by (simp add: Option_wrap_def new_Option_def)

lemma expect_behaviour:
  "built r \<Longrightarrow>
   (isOk r \<longrightarrow> expect r msg = Inr (ok r)) \<and>
   (isErr r \<longrightarrow> (\<exists>x. expect r msg = Inl x)) \<and>
   (isErr r \<and> js_to_string (err r) = Inr s \<longrightarrow>
      expect r msg = Inl (new_Error (msg @ '' - '' @ s))) \<and>
   (isErr r \<and> (\<forall>i. err r \<noteq> Symbol i) \<longrightarrow> (\<exists>s. js_to_string (err r) = Inr s))"
  using built_exclusive [of r] expect_no_error [of r msg] expect_error_raises [of r msg]
    expect_error_message [of r s msg] js_to_string_not_symbol [of "err r"]
  by blast

lemma expect_example:
  "expect (Err (String ''x'')) ''failed'' = Inl (new_Error ''failed - x'')"
  by (simp add: expect_def Err_fields EMPTY_def)

lemma Option_wrap_inspection:
  "isNone (Option_wrap Undefined)"
  "v \<noteq> Undefined \<Longrightarrow> isSome (Option_wrap v)"
  by (simp_all add: isNone_def isSome_def Option_wrap_value)

section \<open>The claims\<close>

text \<open>
  C1. \<open>Result.wrap\<close> calls the zero-argument computation. If the call returns \<open>v\<close>,
  \<open>wrap\<close> returns a Result equal to \<open>Ok(v)\<close>; if the call raises \<open>f\<close>, whatever
  \<open>f\<close> is, \<open>wrap\<close> returns a Result equal to \<open>Err(f)\<close>; in both cases \<open>wrap\<close>
  returns, so nothing is raised past it.
\<close>

theorem wrap_contract:
  "(callback () = Inr v \<longrightarrow> wrap callback = Inr (Ok v)) \<and>
   (callback () = Inl f \<longrightarrow> wrap callback = Inr (Err f)) \<and>
   (\<exists>r. wrap callback = Inr r)"
  by (cases "callback ()") (simp_all add: wrap_returned wrap_thrown)

theorem wrap_contract_witness:
  "returning (Number 1) () = Inr (Number 1) \<and>
   wrap (returning (Number 1)) = Inr (Ok (Number 1)) \<and>
   throwing (String ''div by zero'') () = Inl (String ''div by zero'') \<and>
   wrap (throwing (String ''div by zero'')) = Inr (Err (String ''div by zero''))"
  using wrap_contract [where callback = "returning (Number 1)" and v = "Number 1"]
    wrap_contract [where callback = "throwing (String ''div by zero'')"
      and f = "String ''div by zero''"]
  by (simp add: returning_def throwing_def)

text \<open>
  C4. \<open>Result.wrapAsync\<close> has the contract of \<open>wrap\<close>: when the promise of the
  computation is fulfilled with \<open>v\<close> the promise of \<open>wrapAsync\<close> is fulfilled with
  \<open>Ok(v)\<close>; when it is rejected with \<open>f\<close>, or the call raises \<open>f\<close> at once, it is
  fulfilled with \<open>Err(f)\<close>; the promise of \<open>wrapAsync\<close> is never rejected; and once
  the computation has settled with an outcome, awaiting \<open>wrapAsync\<close> gives what
  \<open>wrap\<close> gives on a computation with that outcome.
\<close>

theorem wrapAsync_contract:
  "(callback () = Inr (Fulfilled v) \<longrightarrow> wrapAsync callback = Fulfilled (Ok v)) \<and>
   (callback () = Inr (Rejected f) \<longrightarrow> wrapAsync callback = Fulfilled (Err f)) \<and>
   (callback () = Inl g \<longrightarrow> wrapAsync callback = Fulfilled (Err g)) \<and>
   (\<forall>x. wrapAsync callback \<noteq> Rejected x) \<and>
   (await_call callback = Some outcome \<longrightarrow>
      await (wrapAsync callback) = Some (wrap (\<lambda>_. outcome)))"
  by (auto simp: wrapAsync_cases wrap_cases await_call_def await_def
           split: option.splits sum.splits Promise.splits)

theorem wrapAsync_contract_witness:
  "returning (Fulfilled (String ''text'')) () = Inr (Fulfilled (String ''text'')) \<and>
   wrapAsync (returning (Fulfilled (String ''text''))) = Fulfilled (Ok (String ''text'')) \<and>
   returning (Rejected (String ''ENOENT'')) () = Inr (Rejected (String ''ENOENT'')) \<and>
   wrapAsync (returning (Rejected (String ''ENOENT''))) = Fulfilled (Err (String ''ENOENT'')) \<and>
   throwing Undefined () = Inl Undefined \<and>
   wrapAsync (throwing Undefined) = Fulfilled (Err Undefined) \<and>
   await_call (returning (Rejected (String ''ENOENT''))) = Some (Inl (String ''ENOENT'')) \<and>
   await (wrapAsync (returning (Rejected (String ''ENOENT'')))) =
     Some (wrap (\<lambda>_. Inl (String ''ENOENT'')))"
  using
    wrapAsync_contract [where callback = "returning (Fulfilled (String ''text''))"
      and v = "String ''text''"]
    wrapAsync_contract [where callback = "returning (Rejected (String ''ENOENT''))"
      and f = "String ''ENOENT''" and outcome = "Inl (String ''ENOENT'')"]
    wrapAsync_contract [where callback = "throwing Undefined" and g = Undefined]
  by (simp add: returning_def throwing_def await_call_def await_def wrap_cases)

text \<open>
  C5, as amended. For every value \<open>v\<close> other than the module's own \<open>EMPTY\<close> symbol,
  \<open>undefined\<close> and \<open>null\<close> included, \<open>Ok(v)\<close> has \<open>isOk()\<close> true, \<open>isErr()\<close>
  false and \<open>ok\<close> equal to \<open>v\<close>; for every error \<open>e\<close> other than \<open>EMPTY\<close>,
  \<open>Err(e)\<close> has \<open>isErr()\<close> true, \<open>isOk()\<close> false and \<open>err\<close> equal to \<open>e\<close>.
\<close>

theorem Ok_Err_inspection:
  "(v \<noteq> EMPTY \<longrightarrow> isOk (Ok v) \<and> \<not> isErr (Ok v) \<and> ok (Ok v) = v) \<and>
   (e \<noteq> EMPTY \<longrightarrow> isErr (Err e) \<and> \<not> isOk (Err e) \<and> err (Err e) = e)"
  by (simp add: isOk_def isErr_def ok_def err_def Ok_fields Err_fields)

theorem Ok_Err_inspection_witness:
  "Undefined \<noteq> EMPTY \<and>
   isOk (Ok Undefined) \<and> \<not> isErr (Ok Undefined) \<and> ok (Ok Undefined) = Undefined \<and>
   Null \<noteq> EMPTY \<and>
   isErr (Err Null) \<and> \<not> isOk (Err Null) \<and> err (Err Null) = Null"
  using Ok_Err_inspection [where v = Undefined and e = Null]
  by (simp add: EMPTY_def)

text \<open>
  The claim as written, for every value, fails at the sentinel itself, which the getters
  hand to the caller: \<open>Ok(Err("bad").ok).isOk()\<close> is false, and so is
  \<open>Err(Ok(42).err).isErr()\<close>.
\<close>

theorem Ok_of_sentinel_counterexample:
  "\<not> isOk (Ok (ok (Err (String ''bad'')))) \<and>
   \<not> isErr (Err (err (Ok (Number 42))))"
  by (simp add: isOk_def isErr_def ok_def err_def Ok_fields Err_fields)

text \<open>
  C6, as amended. For every Result that \<open>Ok\<close>, \<open>Err\<close>, \<open>wrap\<close> or \<open>wrapAsync\<close>
  makes from a value, error, returned value or raised value other than the \<open>EMPTY\<close>
  symbol, \<open>isOk()\<close> is the negation of \<open>isErr()\<close>, and exactly one of the two slots
  holds the sentinel.
\<close>

theorem isOk_isErr_complementary:
  "(v \<noteq> EMPTY \<longrightarrow>
      isOk (Ok v) = (\<not> isErr (Ok v)) \<and>
      (p_value (Ok v) = EMPTY) \<noteq> (p_error (Ok v) = EMPTY)) \<and>
   (e \<noteq> EMPTY \<longrightarrow>
      isOk (Err e) = (\<not> isErr (Err e)) \<and>
      (p_value (Err e) = EMPTY) \<noteq> (p_error (Err e) = EMPTY)) \<and>
   (wrap callback = Inr r \<and> callback () \<noteq> Inr EMPTY \<and> callback () \<noteq> Inl EMPTY \<longrightarrow>
      isOk r = (\<not> isErr r) \<and> (p_value r = EMPTY) \<noteq> (p_error r = EMPTY)) \<and>
   (wrapAsync acallback = Fulfilled r' \<and>
    await_call acallback \<noteq> Some (Inr EMPTY) \<and> await_call acallback \<noteq> Some (Inl EMPTY) \<longrightarrow>
      isOk r' = (\<not> isErr r') \<and> (p_value r' = EMPTY) \<noteq> (p_error r' = EMPTY))"
  by (auto simp: isOk_def isErr_def Ok_fields Err_fields wrap_cases wrapAsync_cases
           split: sum.splits option.splits)

theorem isOk_isErr_complementary_witness:
  "Number 42 \<noteq> EMPTY \<and>
   isOk (Ok (Number 42)) = (\<not> isErr (Ok (Number 42))) \<and>
   String ''bad'' \<noteq> EMPTY \<and>
   isOk (Err (String ''bad'')) = (\<not> isErr (Err (String ''bad''))) \<and>
   wrap (throwing Undefined) = Inr (Err Undefined) \<and>
   throwing Undefined () \<noteq> (Inr EMPTY :: js_value + js_value) \<and>
   throwing Undefined () \<noteq> (Inl EMPTY :: js_value + js_value) \<and>
   isOk (Err Undefined) = (\<not> isErr (Err Undefined)) \<and>
   wrapAsync (returning (Fulfilled Null)) = Fulfilled (Ok Null) \<and>
   await_call (returning (Fulfilled Null)) \<noteq> Some (Inr EMPTY) \<and>
   await_call (returning (Fulfilled Null)) \<noteq> Some (Inl EMPTY) \<and>
   isOk (Ok Null) = (\<not> isErr (Ok Null))"
  using
    isOk_isErr_complementary [where v = "Number 42" and e = "String ''bad''"
      and callback = "throwing Undefined" and r = "Err Undefined"
      and acallback = "returning (Fulfilled Null)" and r' = "Ok Null"]
  by (simp add: EMPTY_def returning_def throwing_def wrap_cases wrapAsync_cases
        await_call_def await_def)

text \<open>
  The claim as written fails on the construction path \<open>Err\<close> when the error is the
  sentinel that the getter \<open>err\<close> of a success Result returns: for
  \<open>Err(Ok(1).err)\<close> both \<open>isOk()\<close> and \<open>isErr()\<close> are false, both slots hold the
  sentinel. The same holds for \<open>wrap\<close> of a computation that returns the sentinel.
\<close>

theorem both_slots_empty_counterexample:
  "\<not> isOk (Err (err (Ok (Number 1)))) \<and>
   \<not> isErr (Err (err (Ok (Number 1)))) \<and>
   p_value (Err (err (Ok (Number 1)))) = EMPTY \<and>
   p_error (Err (err (Ok (Number 1)))) = EMPTY \<and>
   wrap (returning (ok (Err Null))) = Inr (Ok EMPTY) \<and>
   \<not> isOk (Ok EMPTY) \<and> \<not> isErr (Ok EMPTY)"
  by (simp add: isOk_def isErr_def ok_def err_def Ok_fields Err_fields wrap_cases
        returning_def)

text \<open>
  C7, as amended. For every Result and every default \<open>d\<close>: \<open>unwrapOr(d)\<close> returns
  \<open>d\<close> when \<open>isErr()\<close> is true and the content of the success slot when \<open>isErr()\<close>
  is false, and the call never raises. So for a Result with one slot holding the sentinel,
  as \<open>Ok\<close>, \<open>Err\<close>, \<open>wrap\<close> and \<open>wrapAsync\<close> build it, \<open>unwrapOr(d)\<close> returns the
  held success value when \<open>isOk()\<close> is true and \<open>d\<close> when \<open>isErr()\<close> is true.
\<close>

theorem unwrapOr_contract:
  "(isErr r \<longrightarrow> unwrapOr r d = d) \<and>
   (\<not> isErr r \<longrightarrow> unwrapOr r d = ok r) \<and>
   (built r \<and> isOk r \<longrightarrow> unwrapOr r d = ok r) \<and>
   (\<exists>x. invoke (Call_unwrapOr d) r = Inr x)"
  by (auto simp: built_def isOk_def isErr_def unwrapOr_def ok_def)

theorem unwrapOr_contract_witness:
  "isErr (Err (String ''ENOENT'')) \<and>
   unwrapOr (Err (String ''ENOENT'')) (String ''new value'') = String ''new value'' \<and>
   \<not> isErr (Err EMPTY) \<and>
   unwrapOr (Err EMPTY) (String ''new value'') = EMPTY \<and>
   built (Ok (String ''text'')) \<and> isOk (Ok (String ''text'')) \<and>
   unwrapOr (Ok (String ''text'')) (String ''new value'') = String ''text''"
  using unwrapOr_contract [of "Err (String ''ENOENT'')" "String ''new value''"]
    unwrapOr_contract [of "Err EMPTY" "String ''new value''"]
    unwrapOr_contract [of "Ok (String ''text'')" "String ''new value''"]
  by (simp add: built_Ok isOk_def isErr_def ok_def Ok_fields Err_fields EMPTY_def)

text \<open>
  The claim as written, for every Result, fails on a Result that the public constructor
  builds with both slots set, \<open>new Result({ value: 1, error: "e" })\<close>: \<open>isOk()\<close> is
  true and the held success value is \<open>1\<close>, yet \<open>unwrapOr(0)\<close> returns the default,
  because \<open>unwrapOr\<close> tests the error slot.
\<close>

theorem unwrapOr_both_slots_counterexample:
  "isOk (new_Result (Number 1) (String ''e'')) \<and>
   ok (new_Result (Number 1) (String ''e'')) = Number 1 \<and>
   unwrapOr (new_Result (Number 1) (String ''e'')) (Number 0) = Number 0"
  by (simp add: isOk_def ok_def unwrapOr_def new_Result_def EMPTY_def)

text \<open>
  C2. \<open>Option.wrap(null)\<close>: the claim, and the example in the module's own
  documentation, say \<open>isNone()\<close> is true. \<open>isNone\<close> compares with \<open>undefined\<close>
  only, so it is false, and \<open>isSome()\<close> is true, while \<open>some\<close> and \<open>expect\<close> of the
  same class treat \<open>null\<close> as absent.
\<close>

theorem isNone_of_null:
  "isNone (Option_wrap Null) = False \<and> isSome (Option_wrap Null) = True \<and>
   some (Option_wrap Null) = Inl (new_Error ''Option is None'')"
  by (simp add: isNone_def isSome_def some_def Option_wrap_value)

text \<open>
  C3. \<open>expect(msg)\<close> on an error Result whose error is a symbol: the claim says the
  failure raised has the message \<open>"{msg} - {stringified error}"\<close>. The template
  literal that builds the message raises the runtime's \<open>TypeError\<close> on a symbol, and
  that is what \<open>expect\<close> raises; its message holds neither \<open>msg\<close> nor the error.
\<close>

theorem expect_of_symbol_error:
  "isErr (Err (Symbol 1)) \<and>
   expect (Err (Symbol 1)) ''failed'' =
     Inl (ErrorObject ''TypeError'' ''Cannot convert a Symbol value to a string'')"
  by (simp add: isErr_def expect_def Err_fields EMPTY_def symbol_TypeError_def)

text \<open>
  C8, as amended. The getter \<open>ok\<close> of \<open>Err(e)\<close> and the getter \<open>err\<close> of \<open>Ok(v)\<close>
  return the \<open>EMPTY\<close> sentinel and do not raise. The getter \<open>some\<close> of option.ts does
  raise on an absent Option, with \<open>Error("Option is None")\<close>, for \<open>undefined\<close> and for
  \<open>null\<close>; only the getter of the class's earlier revision returns the stored absent
  value.
\<close>

theorem unchecked_accessors:
  "invoke Get_ok (Err e) = Inr EMPTY \<and>
   invoke Get_err (Ok v) = Inr EMPTY \<and>
   (x = Undefined \<or> x = Null \<longrightarrow>
      some (Option_wrap x) = Inl (new_Error ''Option is None'') \<and>
      some_unchecked (Option_wrap x) = x)"
  by (auto simp: ok_def err_def Ok_fields Err_fields some_def some_unchecked_def
        Option_wrap_value)

theorem unchecked_accessors_witness:
  "invoke Get_ok (Err (String ''bad'')) = Inr EMPTY \<and>
   invoke Get_err (Ok (Number 42)) = Inr EMPTY \<and>
   some (Option_wrap Null) = Inl (new_Error ''Option is None'') \<and>
   some_unchecked (Option_wrap Null) = Null"
  using unchecked_accessors [where e = "String ''bad''" and v = "Number 42" and x = Null]
  by simp

text \<open>
  The claim as written fails for the Option: \<open>Option.wrap(undefined).some\<close> raises.
\<close>

theorem some_of_absent_counterexample:
  "isNone (Option_wrap Undefined) \<and>
   some (Option_wrap Undefined) = Inl (ErrorObject ''Error'' ''Option is None'')"
  by (simp add: isNone_def some_def Option_wrap_value new_Error_def)

text \<open>
  C9. For every Option and every message: \<open>expect(msg)\<close> returns the stored value when
  it is neither \<open>undefined\<close> nor \<open>null\<close>, and otherwise raises an \<open>Error\<close> whose text
  is \<open>"{msg} - Option is None"\<close>.
\<close>

theorem Option_expect_contract:
  "(o_value opt \<noteq> Undefined \<and> o_value opt \<noteq> Null \<longrightarrow>
      Option_expect opt msg = Inr (o_value opt)) \<and>
   (o_value opt = Undefined \<or> o_value opt = Null \<longrightarrow>
      Option_expect opt msg = Inl (new_Error (msg @ '' - Option is None'')))"
  by (auto simp: Option_expect_def)

theorem Option_expect_contract_witness:
  "o_value (Option_wrap (Number 5)) \<noteq> Undefined \<and>
   o_value (Option_wrap (Number 5)) \<noteq> Null \<and>
   Option_expect (Option_wrap (Number 5)) ''five'' = Inr (Number 5) \<and>
   o_value (Option_wrap Undefined) = Undefined \<and>
   Option_expect (Option_wrap Undefined) ''unwrap on none'' =
     Inl (ErrorObject ''Error'' ''unwrap on none - Option is None'') \<and>
   o_value (Option_wrap Null) = Null \<and>
   Option_expect (Option_wrap Null) ''unwrap on none'' =
     Inl (ErrorObject ''Error'' ''unwrap on none - Option is None'')"
  using Option_expect_contract [of "Option_wrap (Number 5)" "''five''"]
    Option_expect_contract [of "Option_wrap Undefined" "''unwrap on none''"]
    Option_expect_contract [of "Option_wrap Null" "''unwrap on none''"]
  by (simp add: Option_wrap_value new_Error_def)

text \<open>
  C10, as amended. The Result with the symbol sentinel and the Result with
  \<open>undefined\<close> as the sentinel agree on \<open>isOk\<close>, \<open>isErr\<close>, \<open>expect\<close> and on the
  getter of the branch that was built (\<open>ok\<close> after \<open>Ok\<close>, \<open>err\<close> after \<open>Err\<close>),
  for a success value other than the \<open>EMPTY\<close> symbol and an error other than
  \<open>EMPTY\<close> and \<open>undefined\<close>; \<open>wrap\<close> takes the same construction path in both. The
  getter of the other branch returns \<open>EMPTY\<close> in the one and \<open>undefined\<close> in the
  other.
\<close>

theorem sentinel_variants_agree:
  "(v \<noteq> EMPTY \<longrightarrow>
      isOk (Ok v) = isOk_undef (Ok_undef v) \<and>
      isErr (Ok v) = isErr_undef (Ok_undef v) \<and>
      ok (Ok v) = ok_undef (Ok_undef v) \<and>
      expect (Ok v) msg = expect_undef (Ok_undef v) msg) \<and>
   (e \<noteq> EMPTY \<and> e \<noteq> Undefined \<longrightarrow>
      isOk (Err e) = isOk_undef (Err_undef e) \<and>
      isErr (Err e) = isErr_undef (Err_undef e) \<and>
      err (Err e) = err_undef (Err_undef e) \<and>
      expect (Err e) msg = expect_undef (Err_undef e) msg) \<and>
   (callback () = Inr v \<longrightarrow>
      wrap callback = Inr (Ok v) \<and> wrap_undef callback = Inr (Ok_undef v)) \<and>
   (callback () = Inl e \<longrightarrow>
      wrap callback = Inr (Err e) \<and> wrap_undef callback = Inr (Err_undef e)) \<and>
   err (Ok v) = EMPTY \<and> err_undef (Ok_undef v) = Undefined \<and>
   ok (Err e) = EMPTY \<and> ok_undef (Err_undef e) = Undefined"
  by (simp add: isOk_def isErr_def ok_def err_def expect_def
        isOk_undef_def isErr_undef_def ok_undef_def err_undef_def expect_undef_def
        Ok_fields Err_fields Ok_undef_fields Err_undef_fields wrap_cases wrap_undef_cases)

theorem sentinel_variants_agree_witness:
  "Undefined \<noteq> EMPTY \<and>
   isOk (Ok Undefined) = isOk_undef (Ok_undef Undefined) \<and>
   isErr (Ok Undefined) = isErr_undef (Ok_undef Undefined) \<and>
   ok (Ok Undefined) = ok_undef (Ok_undef Undefined) \<and>
   expect (Ok Undefined) ''failed'' = expect_undef (Ok_undef Undefined) ''failed'' \<and>
   String ''x'' \<noteq> EMPTY \<and> String ''x'' \<noteq> Undefined \<and>
   isOk (Err (String ''x'')) = isOk_undef (Err_undef (String ''x'')) \<and>
   isErr (Err (String ''x'')) = isErr_undef (Err_undef (String ''x'')) \<and>
   err (Err (String ''x'')) = err_undef (Err_undef (String ''x'')) \<and>
   expect (Err (String ''x'')) ''failed'' = expect_undef (Err_undef (String ''x'')) ''failed'' \<and>
   expect_undef (Err_undef (String ''x'')) ''failed'' = Inl (new_Error ''failed - x'') \<and>
   returning Undefined () = Inr Undefined \<and>
   wrap (returning Undefined) = Inr (Ok Undefined) \<and>
   wrap_undef (returning Undefined) = Inr (Ok_undef Undefined) \<and>
   throwing (String ''x'') () = Inl (String ''x'') \<and>
   wrap (throwing (String ''x'')) = Inr (Err (String ''x'')) \<and>
   wrap_undef (throwing (String ''x'')) = Inr (Err_undef (String ''x''))"
  using
    sentinel_variants_agree [where v = Undefined and e = "String ''x''" and msg = "''failed''"
      and callback = "returning Undefined"]
    sentinel_variants_agree [where v = Undefined and e = "String ''x''" and msg = "''failed''"
      and callback = "throwing (String ''x'')"]
  by (simp add: EMPTY_def returning_def throwing_def expect_undef_def Err_undef_fields)

text \<open>
  The claim as written fails where it names it: a computation that raises
  \<open>undefined\<close>. Both \<open>wrap\<close>s build the error Result; \<open>isErr()\<close> is true with the
  symbol sentinel and false with \<open>undefined\<close> as the sentinel, and \<open>expect\<close> raises
  in the one and returns in the other. The two also differ on the getter of the branch
  that was not built (\<open>Ok(1).err\<close>), and on \<open>isOk()\<close> of \<open>Ok\<close> of the symbol
  sentinel.
\<close>

theorem thrown_undefined_counterexample:
  "wrap (throwing Undefined) = Inr (Err Undefined) \<and>
   wrap_undef (throwing Undefined) = Inr (Err_undef Undefined) \<and>
   isErr (Err Undefined) \<and>
   \<not> isErr_undef (Err_undef Undefined) \<and>
   expect (Err Undefined) ''failed'' = Inl (ErrorObject ''Error'' ''failed - undefined'') \<and>
   expect_undef (Err_undef Undefined) ''failed'' = Inr Undefined \<and>
   err (Ok (Number 1)) = Symbol 0 \<and>
   err_undef (Ok_undef (Number 1)) = Undefined \<and>
   \<not> isOk (Ok (ok (Err Null))) \<and>
   isOk_undef (Ok_undef (ok (Err Null)))"
  by (simp add: wrap_cases wrap_undef_cases throwing_def isErr_def isErr_undef_def
        isOk_def isOk_undef_def ok_def err_def err_undef_def expect_def expect_undef_def
        Ok_fields Err_fields Ok_undef_fields Err_undef_fields EMPTY_def new_Error_def)

end
